theory Spec2Isabelle
  imports Main
begin

section \<open>Go library functions used by transx.go\<close>

text \<open>
  A Go string is a sequence of bytes; it is modelled as \<open>string\<close> (a list of 8-bit
  characters). The functions of this section are the parts of the Go standard library that
  \<^verbatim>\<open>transx.go\<close> calls on strings: \<^verbatim>\<open>strings.TrimSpace\<close>,
  \<^verbatim>\<open>strings.Contains\<close>, \<^verbatim>\<open>strings.Join\<close> and
  \<^verbatim>\<open>strconv.Itoa\<close>.
\<close>

subsection \<open>UTF-8 decoding (package unicode/utf8)\<close>

definition RuneError :: nat where
  "RuneError = 65533"

text \<open>
  The table \<^verbatim>\<open>first\<close> with \<^verbatim>\<open>acceptRanges\<close>: for a leading byte of a
  multi-byte sequence, the length of the sequence and the range accepted for its second byte.
\<close>

definition firstInfo :: "nat \<Rightarrow> (nat \<times> nat \<times> nat) option" where
  "firstInfo b =
     (if 194 \<le> b \<and> b \<le> 223 then Some (2, 128, 191)
      else if b = 224 then Some (3, 160, 191)
      else if 225 \<le> b \<and> b \<le> 236 then Some (3, 128, 191)
      else if b = 237 then Some (3, 128, 159)
      else if 238 \<le> b \<and> b \<le> 239 then Some (3, 128, 191)
      else if b = 240 then Some (4, 144, 191)
      else if 241 \<le> b \<and> b \<le> 243 then Some (4, 128, 191)
      else if b = 244 then Some (4, 128, 143)
      else None)"

definition contByte :: "nat \<Rightarrow> bool" where
  "contByte b = (128 \<le> b \<and> b \<le> 191)"

text \<open>\<^verbatim>\<open>utf8.DecodeRuneInString\<close>: the first rune of the bytes and its width.\<close>

fun DecodeRune :: "nat list \<Rightarrow> nat \<times> nat" where
  "DecodeRune [] = (RuneError, 0)"
| "DecodeRune (s0 # rest) =
     (if s0 < 128 then (s0, 1)
      else case firstInfo s0 of
        None \<Rightarrow> (RuneError, 1)
      | Some (sz, lo, hi) \<Rightarrow>
          if Suc (length rest) < sz then (RuneError, 1)
          else if rest ! 0 < lo \<or> hi < rest ! 0 then (RuneError, 1)
          else if sz \<le> 2 then ((s0 mod 32) * 64 + rest ! 0 mod 64, 2)
          else if \<not> contByte (rest ! 1) then (RuneError, 1)
          else if sz \<le> 3
            then ((s0 mod 16) * 4096 + (rest ! 0 mod 64) * 64 + rest ! 1 mod 64, 3)
          else if \<not> contByte (rest ! 2) then (RuneError, 1)
          else ((s0 mod 8) * 262144 + (rest ! 0 mod 64) * 4096
                  + (rest ! 1 mod 64) * 64 + rest ! 2 mod 64, 4))"

text \<open>
  \<^verbatim>\<open>utf8.DecodeLastRuneInString\<close>: the last rune of the bytes and its width. The
  backwards scan for the start of the rune looks at three bytes at most
  (\<^verbatim>\<open>lim = end - UTFMax\<close>), from \<^verbatim>\<open>end - 2\<close> downwards.
\<close>

definition DecodeLastRune :: "nat list \<Rightarrow> nat \<times> nat" where
  "DecodeLastRune s =
     (let end = length s in
      if end = 0 then (RuneError, 0)
      else if s ! (end - 1) < 128 then (s ! (end - 1), 1)
      else
        let lim = end - 4;
            start = (case find (\<lambda>i. \<not> contByte (s ! i)) (rev [lim ..< end - 1]) of
                       Some i \<Rightarrow> i
                     | None \<Rightarrow> lim - 1);
            d = DecodeRune (drop start s)
        in if start + snd d \<noteq> end then (RuneError, 1) else d)"

subsection \<open>White space (package unicode)\<close>

text \<open>\<^verbatim>\<open>unicode.IsSpace\<close>: the code points with Unicode's White\_Space property.\<close>

definition IsSpace :: "nat \<Rightarrow> bool" where
  "IsSpace r =
     ((9 \<le> r \<and> r \<le> 13) \<or> r = 32 \<or> r = 133 \<or> r = 160 \<or> r = 5760
      \<or> (8192 \<le> r \<and> r \<le> 8202) \<or> r = 8232 \<or> r = 8233 \<or> r = 8239
      \<or> r = 8287 \<or> r = 12288)"

subsection \<open>Package strings\<close>

definition bytes :: "string \<Rightarrow> nat list" where
  "bytes s = map of_char s"

text \<open>\<^verbatim>\<open>strings.TrimLeftFunc(s, unicode.IsSpace)\<close>\<close>

fun TrimLeft :: "string \<Rightarrow> string" where
  "TrimLeft [] = []"
| "TrimLeft (c # cs) =
     (if IsSpace (fst (DecodeRune (bytes (c # cs))))
      then TrimLeft (drop (snd (DecodeRune (bytes (c # cs))) - 1) cs)
      else c # cs)"

text \<open>
  \<^verbatim>\<open>lastIndexFunc(s, unicode.IsSpace, false)\<close>: the byte index at which the last rune
  that is not white space starts, \<open>-1\<close> when there is none. The loop variable \<^verbatim>\<open>i\<close> of
  the source is the length of the prefix \<^verbatim>\<open>s[0:i]\<close> still to be scanned.
\<close>

function lastIndexFunc :: "string \<Rightarrow> int" where
  "lastIndexFunc s =
     (if s = [] then - 1
      else if \<not> IsSpace (fst (DecodeLastRune (bytes s)))
        then int (length s - snd (DecodeLastRune (bytes s)))
      else lastIndexFunc (take (length s - snd (DecodeLastRune (bytes s))) s))"
  by pat_completeness auto

termination
proof (relation "measure length")
  show "wf (measure length)" by simp
next
  fix s :: string
  assume ne: "s \<noteq> []"
  have pos: "0 < snd (DecodeLastRune (bytes s))"
  proof -
    let ?b = "bytes s"
    let ?lim = "length ?b - 4"
    let ?start = "case find (\<lambda>i. \<not> contByte (?b ! i)) (rev [?lim ..< length ?b - 1]) of
                    Some i \<Rightarrow> i | None \<Rightarrow> ?lim - 1"
    have len: "0 < length ?b" using ne by (simp add: bytes_def)
    have "?start < length ?b"
    proof (cases "find (\<lambda>i. \<not> contByte (?b ! i)) (rev [?lim ..< length ?b - 1])")
      case None
      then show ?thesis using len by simp
    next
      case (Some i)
      then have "i \<in> set (rev [?lim ..< length ?b - 1])"
        by (metis find_Some_iff nth_mem)
      then have "i < length ?b" by auto
      then show ?thesis using Some by simp
    qed
    then show ?thesis
      using len by (auto simp: DecodeLastRune_def Let_def)
  qed
  then show "(take (length s - snd (DecodeLastRune (bytes s))) s, s) \<in> measure length"
    using ne by simp
qed

declare lastIndexFunc.simps [simp del]

text \<open>\<^verbatim>\<open>strings.TrimRightFunc(s, unicode.IsSpace)\<close>\<close>

definition TrimRight :: "string \<Rightarrow> string" where
  "TrimRight s =
     (let i = lastIndexFunc s in
      if 0 \<le> i \<and> (128::nat) \<le> of_char (s ! nat i)
      then take (nat i + snd (DecodeRune (bytes (drop (nat i) s)))) s
      else take (nat (i + 1)) s)"

text \<open>
  \<^verbatim>\<open>strings.TrimSpace\<close>: leading and trailing white space removed. The source has a
  fast path for ASCII and falls back to \<^verbatim>\<open>TrimFunc(s, unicode.IsSpace)\<close>, with which it
  agrees on ASCII; the model is that function.
\<close>

definition TrimSpace :: "string \<Rightarrow> string" where
  "TrimSpace s = TrimRight (TrimLeft s)"

text \<open>\<^verbatim>\<open>strings.Contains(s, substr)\<close>: \<open>substr\<close> occurs in \<open>s\<close>.\<close>

fun Contains :: "string \<Rightarrow> string \<Rightarrow> bool" where
  "Contains [] substr = (substr = [])"
| "Contains (c # cs) substr = (take (length substr) (c # cs) = substr \<or> Contains cs substr)"

text \<open>\<^verbatim>\<open>strings.Join(elems, sep)\<close>\<close>

fun Join :: "string list \<Rightarrow> string \<Rightarrow> string" where
  "Join [] sep = []"
| "Join [x] sep = x"
| "Join (x # y # ys) sep = x @ sep @ Join (y # ys) sep"

subsection \<open>Package strconv\<close>

fun digits :: "nat \<Rightarrow> string" where
  "digits n =
     (if n < 10 then [''0123456789'' ! n]
      else digits (n div 10) @ [''0123456789'' ! (n mod 10)])"

declare digits.simps [simp del]

text \<open>
  \<^verbatim>\<open>strconv.Itoa\<close>: the decimal text of an integer. Go's \<^verbatim>\<open>int\<close> has 64 bits; the
  program compares ports and prints them, and does no arithmetic on them, so \<open>int\<close> is used.
\<close>

definition Itoa :: "int \<Rightarrow> string" where
  "Itoa i = (if i < 0 then ''-'' @ digits (nat (- i)) else digits (nat i))"

section \<open>The data model of transx.go\<close>

record EndpointDetails =
  Username :: string
  HostIP :: string
  SSHPort :: int
  DataPath :: string
  SSHPrivateKeyPath :: string
  BackupCmd :: string
  RestoreCmd :: string

record RsyncOption =
  Compress :: bool
  Archive :: bool
  Verbose :: bool
  Delete :: bool
  Progress :: bool
  DryRun :: bool
  RsyncPath :: string
  Exclude :: "string list"
  Include :: "string list"
  InsecureSkipHostKeyVerification :: bool

record DataMigrationModel =
  Source :: EndpointDetails
  Destination :: EndpointDetails
  RsyncOptions :: RsyncOption

text \<open>The zero value of \<^verbatim>\<open>EndpointDetails\<close> (\<^verbatim>\<open>var e EndpointDetails\<close>).\<close>

definition zeroEndpoint :: EndpointDetails where
  "zeroEndpoint =
     \<lparr>Username = [], HostIP = [], SSHPort = 0, DataPath = [], SSHPrivateKeyPath = [],
      BackupCmd = [], RestoreCmd = []\<rparr>"

subsection \<open>Errors\<close>

text \<open>
  Every \<^verbatim>\<open>fmt.Errorf\<close> of the source is a constructor that carries what the message
  prints; an error wrapped with \<^verbatim>\<open>%w\<close> is an argument of type \<open>error\<close>. \<open>OSError\<close> is an
  error returned by the operating system (\<^verbatim>\<open>os.MkdirTemp\<close>,
  \<^verbatim>\<open>(*exec.Cmd).CombinedOutput\<close>), with its text.
\<close>

datatype side = SourceSide | DestinationSide

datatype error =
    MissingPath side
  | InvalidPort side int
  | MissingHost side
  | ValidationFailed error
  | TempDirFailed error
  | RelayDownloadFailed string string "string list" error string
  | RelayUploadFailed string string "string list" error string
  | RsyncFailed string string string "string list" error string
  | EmptyCommand
  | MissingHostIP
  | OSError string
  | BackupCmdNotDefined
  | RestoreCmdNotDefined
  | BackupCmdFailed string error string
  | RestoreCmdFailed string error string
  | BackupFailed error
  | TransferFailed error
  | RestoreFailed error

subsection \<open>Effects\<close>

text \<open>
  The program acts on the outside world in four ways: it prints to standard output, creates
  a temporary directory, removes it, and runs a process to its end
  (\<^verbatim>\<open>exec.Command(name, args...).CombinedOutput()\<close>). The state of the model is the list of
  these actions so far, oldest first. What the outside world answers (the name of the
  directory created, the output and the error of a process) is given by a \<open>system\<close>, as a
  function of the actions so far: the theorems hold for every system.
\<close>

datatype event =
    Print string
  | MkdirTemp string
  | RemoveAll string
  | Exec "string list"

record system =
  mkdirTemp :: "event list \<Rightarrow> string \<Rightarrow> string \<Rightarrow> string + string"
  combinedOutput :: "event list \<Rightarrow> string list \<Rightarrow> string \<times> string option"

text \<open>The command lines of the processes run, in order.\<close>

fun procs :: "event list \<Rightarrow> string list list" where
  "procs [] = []"
| "procs (Exec argv # tr) = argv # procs tr"
| "procs (_ # tr) = procs tr"

text \<open>
  \<^verbatim>\<open>exec.Command(argv[0], argv[1:]...).CombinedOutput()\<close>: the output and the error of the
  process, and the run recorded.
\<close>

definition CombinedOutput ::
  "system \<Rightarrow> string list \<Rightarrow> event list \<Rightarrow> (string \<times> error option) \<times> event list" where
  "CombinedOutput sys argv tr =
     ((fst (combinedOutput sys tr argv), map_option OSError (snd (combinedOutput sys tr argv))),
      tr @ [Exec argv])"

section \<open>The functions of transx.go\<close>

subsection \<open>Endpoints\<close>

definition isRemote :: "EndpointDetails \<Rightarrow> bool" where
  "isRemote e = (TrimSpace (HostIP e) \<noteq> [])"

definition getRsyncPath :: "EndpointDetails \<Rightarrow> string" where
  "getRsyncPath e =
     (if isRemote e then
        (if TrimSpace (Username e) \<noteq> []
         then Username e @ ''@'' @ HostIP e @ '':'' @ DataPath e
         else HostIP e @ '':'' @ DataPath e)
      else DataPath e)"

definition IsRelayMode :: "DataMigrationModel \<Rightarrow> bool" where
  "IsRelayMode task = (isRemote (Source task) \<and> isRemote (Destination task))"

subsection \<open>Validate\<close>

text \<open>\<open>None\<close> is the \<^verbatim>\<open>nil\<close> error.\<close>

definition Validate :: "DataMigrationModel \<Rightarrow> error option" where
  "Validate task =
     (let sourceRsyncPath = getRsyncPath (Source task);
          destRsyncPath = getRsyncPath (Destination task)
      in
      if TrimSpace sourceRsyncPath = [] \<or> TrimSpace (DataPath (Source task)) = []
        then Some (MissingPath SourceSide)
      else if TrimSpace destRsyncPath = [] \<or> TrimSpace (DataPath (Destination task)) = []
        then Some (MissingPath DestinationSide)
      else if isRemote (Source task)
          \<and> SSHPort (Source task) \<noteq> 0
          \<and> (SSHPort (Source task) < 1 \<or> SSHPort (Source task) > 65535)
        then Some (InvalidPort SourceSide (SSHPort (Source task)))
      else if isRemote (Source task) \<and> TrimSpace (HostIP (Source task)) = []
        then Some (MissingHost SourceSide)
      else if isRemote (Destination task)
          \<and> SSHPort (Destination task) \<noteq> 0
          \<and> (SSHPort (Destination task) < 1 \<or> SSHPort (Destination task) > 65535)
        then Some (InvalidPort DestinationSide (SSHPort (Destination task)))
      else if isRemote (Destination task) \<and> TrimSpace (HostIP (Destination task)) = []
        then Some (MissingHost DestinationSide)
      else None)"

subsection \<open>Transfer\<close>

text \<open>The arguments built from the options, up to the include patterns.\<close>

definition optionArgs :: "RsyncOption \<Rightarrow> string list" where
  "optionArgs opts =
     (if Archive opts then [''-a''] else [])
     @ (if Compress opts then [''-z''] else [])
     @ (if Verbose opts then [''-v''] else [])
     @ (if Delete opts then [''--delete''] else [])
     @ (if Progress opts then [''--progress''] else [])
     @ (if DryRun opts then [''-n''] else [])
     @ concat (map (\<lambda>ex. if TrimSpace ex \<noteq> [] then [''--exclude='' @ ex] else [])
                (Exclude opts))
     @ concat (map (\<lambda>inc. if TrimSpace inc \<noteq> [] then [''--include='' @ inc] else [])
                (Include opts))"

text \<open>
  \<^verbatim>\<open>activeRemoteEndpointForRsync\<close> and \<^verbatim>\<open>operationInvolvesRemoteRsync\<close>: the source
  when it is remote, else the destination when it is remote, else the zero value.
\<close>

definition activeRemoteEndpointForRsync :: "DataMigrationModel \<Rightarrow> EndpointDetails" where
  "activeRemoteEndpointForRsync task =
     (if isRemote (Source task) then Source task
      else if isRemote (Destination task) then Destination task
      else zeroEndpoint)"

definition operationInvolvesRemoteRsync :: "DataMigrationModel \<Rightarrow> bool" where
  "operationInvolvesRemoteRsync task =
     (if isRemote (Source task) then True
      else if isRemote (Destination task) then True
      else False)"

definition sshOptString :: "DataMigrationModel \<Rightarrow> string" where
  "sshOptString task =
     (let active = activeRemoteEndpointForRsync task in
      if operationInvolvesRemoteRsync task \<and> SSHPrivateKeyPath active \<noteq> [] then
        Join ([''ssh'']
              @ (if TrimSpace (SSHPrivateKeyPath active) \<noteq> []
                 then [''-i'', SSHPrivateKeyPath active] else [])
              @ (if SSHPort active \<noteq> 0 then [''-p'', Itoa (SSHPort active)] else [])
              @ (if InsecureSkipHostKeyVerification (RsyncOptions task)
                 then [''-o'', ''StrictHostKeyChecking=accept-new'',
                       ''-o'', ''UserKnownHostsFile=/dev/null'']
                 else []))
             '' ''
      else [])"

text \<open>The arguments before the two paths: the options, then the remote-shell option.\<close>

definition rsyncArgs :: "DataMigrationModel \<Rightarrow> string list" where
  "rsyncArgs task =
     optionArgs (RsyncOptions task)
     @ (if sshOptString task \<noteq> [] then [''-e'', sshOptString task] else [])"

definition rsyncCmdPath :: "DataMigrationModel \<Rightarrow> string" where
  "rsyncCmdPath task =
     (if RsyncPath (RsyncOptions task) = [] then ''rsync'' else RsyncPath (RsyncOptions task))"

text \<open>
  The relay branch after the temporary directory has been created, up to its
  \<^verbatim>\<open>return\<close>; the deferred \<^verbatim>\<open>os.RemoveAll(tempDir)\<close> is in \<open>Transfer\<close>.
\<close>

definition relayTransfer ::
  "system \<Rightarrow> DataMigrationModel \<Rightarrow> string \<Rightarrow> event list \<Rightarrow> error option \<times> event list" where
  "relayTransfer sys task tempDir tr =
     (let sourceRsyncPath = getRsyncPath (Source task);
          destinationRsyncPath = getRsyncPath (Destination task);
          downloadArgs = rsyncArgs task @ [sourceRsyncPath, tempDir @ ''/''];
          uploadArgs = rsyncArgs task @ [tempDir @ ''/'', destinationRsyncPath];
          download = CombinedOutput sys (rsyncCmdPath task # downloadArgs)
            (tr @ [Print ''Relay transfer mode: Downloading from source to local temp dir...\<newline>''])
      in case snd (fst download) of
        Some err \<Rightarrow>
          (Some (RelayDownloadFailed sourceRsyncPath (rsyncCmdPath task) downloadArgs err
                   (fst (fst download))),
           snd download)
      | None \<Rightarrow>
          (let upload = CombinedOutput sys (rsyncCmdPath task # uploadArgs)
                 (snd download
                  @ [Print ''Relay transfer mode: Uploading from local temp dir to destination...\<newline>''])
           in case snd (fst upload) of
             Some err \<Rightarrow>
               (Some (RelayUploadFailed destinationRsyncPath (rsyncCmdPath task) uploadArgs err
                        (fst (fst upload))),
                snd upload)
           | None \<Rightarrow>
               (None, snd upload @ [Print ''Relay transfer completed successfully!\<newline>''])))"

definition Transfer ::
  "system \<Rightarrow> DataMigrationModel \<Rightarrow> event list \<Rightarrow> error option \<times> event list" where
  "Transfer sys task tr =
     (case Validate task of
        Some err \<Rightarrow> (Some (ValidationFailed err), tr)
      | None \<Rightarrow>
          if IsRelayMode task then
            (case mkdirTemp sys tr [] ''transx-relay-*'' of
               Inl msg \<Rightarrow> (Some (TempDirFailed (OSError msg)), tr)
             | Inr tempDir \<Rightarrow>
                 (let r = relayTransfer sys task tempDir (tr @ [MkdirTemp tempDir])
                  in (fst r, snd r @ [RemoveAll tempDir])))
          else
            (let sourceRsyncPath = getRsyncPath (Source task);
                 destinationRsyncPath = getRsyncPath (Destination task);
                 args = rsyncArgs task @ [sourceRsyncPath, destinationRsyncPath];
                 run = CombinedOutput sys (rsyncCmdPath task # args) tr
             in case snd (fst run) of
               Some err \<Rightarrow>
                 (Some (RsyncFailed sourceRsyncPath destinationRsyncPath (rsyncCmdPath task)
                          args err (fst (fst run))),
                  snd run)
             | None \<Rightarrow> (None, snd run)))"

subsection \<open>executeCommand\<close>

definition userHost :: "EndpointDetails \<Rightarrow> string" where
  "userHost endpoint =
     (if TrimSpace (Username endpoint) \<noteq> []
      then Username endpoint @ ''@'' @ HostIP endpoint
      else HostIP endpoint)"

definition sshCmdParts :: "string \<Rightarrow> EndpointDetails \<Rightarrow> RsyncOption \<Rightarrow> string list" where
  "sshCmdParts commandToExecute endpoint sshConfig =
     [''ssh'']
     @ (if TrimSpace (SSHPrivateKeyPath endpoint) \<noteq> []
        then [''-i'', SSHPrivateKeyPath endpoint] else [])
     @ (if SSHPort endpoint \<noteq> 0 then [''-p'', Itoa (SSHPort endpoint)] else [])
     @ (if InsecureSkipHostKeyVerification sshConfig
        then [''-o'', ''StrictHostKeyChecking=accept-new'',
              ''-o'', ''UserKnownHostsFile=/dev/null'']
        else [])
     @ [''-o'', ''ConnectTimeout=30'']
     @ (if Contains commandToExecute ''sudo'' then [''-t''] else [])
     @ [userHost endpoint, commandToExecute]"

text \<open>The result is the pair \<^verbatim>\<open>([]byte, error)\<close>; a \<^verbatim>\<open>nil\<close> slice is the empty string.\<close>

definition executeCommand ::
  "system \<Rightarrow> string \<Rightarrow> EndpointDetails \<Rightarrow> RsyncOption \<Rightarrow> event list
     \<Rightarrow> (string \<times> error option) \<times> event list" where
  "executeCommand sys commandToExecute endpoint sshConfig tr =
     (if TrimSpace commandToExecute = [] then (([], Some EmptyCommand), tr)
      else if isRemote endpoint then
        (if TrimSpace (HostIP endpoint) = [] then (([], Some MissingHostIP), tr)
         else CombinedOutput sys (sshCmdParts commandToExecute endpoint sshConfig)
                (tr @ [Print (''Executing remote command on '' @ userHost endpoint
                              @ ''...\<newline>'')]))
      else CombinedOutput sys [''sh'', ''-c'', commandToExecute]
             (tr @ [Print ''Executing local command...\<newline>'']))"

subsection \<open>Backup and Restore\<close>

text \<open>The summary of the output that both phases print after a successful command.\<close>

definition outputSummary :: "string \<Rightarrow> string \<Rightarrow> event list" where
  "outputSummary phase outputStr =
     (if length outputStr > 200
        then [Print (phase @ '' command output (truncated): '' @ take 200 outputStr
                     @ ''...\<newline>'')]
      else if length outputStr > 0
        then [Print (phase @ '' command output: '' @ outputStr @ ''\<newline>'')]
      else [])"

definition Backup ::
  "system \<Rightarrow> DataMigrationModel \<Rightarrow> event list \<Rightarrow> error option \<times> event list" where
  "Backup sys dmm tr =
     (let source = Source dmm in
      if TrimSpace (BackupCmd source) = [] then (Some BackupCmdNotDefined, tr)
      else
        (let sourcePath =
               (if isRemote source
                then Username source @ ''@'' @ HostIP source @ '':'' @ DataPath source
                else DataPath source);
             tr1 = tr
               @ [if isRemote source
                  then Print (''Executing backup command on remote server '' @ HostIP source
                              @ ''...\<newline>'')
                  else Print ''Executing backup command locally...\<newline>'',
                  Print (''Backup command: '' @ BackupCmd source @ ''\<newline>'')];
             run = executeCommand sys (BackupCmd source) source (RsyncOptions dmm) tr1
         in case snd (fst run) of
           Some err \<Rightarrow> (Some (BackupCmdFailed sourcePath err (fst (fst run))), snd run)
         | None \<Rightarrow> (None, snd run @ outputSummary ''Backup'' (fst (fst run)))))"

definition Restore ::
  "system \<Rightarrow> DataMigrationModel \<Rightarrow> event list \<Rightarrow> error option \<times> event list" where
  "Restore sys dmm tr =
     (let destination = Destination dmm in
      if TrimSpace (RestoreCmd destination) = [] then (Some RestoreCmdNotDefined, tr)
      else
        (let destinationDataPath =
               (if isRemote destination
                then Username destination @ ''@'' @ HostIP destination @ '':''
                     @ DataPath destination
                else DataPath destination);
             tr1 = tr
               @ [if isRemote destination
                  then Print (''Executing restore command on remote server ''
                              @ HostIP destination @ ''...\<newline>'')
                  else Print ''Executing restore command locally...\<newline>'',
                  Print (''Restore command: '' @ RestoreCmd destination @ ''\<newline>'')];
             run = executeCommand sys (RestoreCmd destination) destination (RsyncOptions dmm)
                     tr1
         in case snd (fst run) of
           Some err \<Rightarrow>
             (Some (RestoreCmdFailed destinationDataPath err (fst (fst run))), snd run)
         | None \<Rightarrow> (None, snd run @ outputSummary ''Restore'' (fst (fst run)))))"

subsection \<open>MigrateData\<close>

text \<open>The three steps of \<^verbatim>\<open>MigrateData\<close>, each a part of its body.\<close>

definition backupStep ::
  "system \<Rightarrow> DataMigrationModel \<Rightarrow> event list \<Rightarrow> error option \<times> event list" where
  "backupStep sys dmm tr =
     (if TrimSpace (BackupCmd (Source dmm)) \<noteq> [] then
        (let r = Backup sys dmm (tr @ [Print ''Step 1: Backing up data...\<newline>''])
         in case fst r of
           Some err \<Rightarrow> (Some (BackupFailed err), snd r)
         | None \<Rightarrow> (None, snd r @ [Print ''Backup completed successfully!\<newline>'']))
      else (None, tr))"

definition transferStep ::
  "system \<Rightarrow> DataMigrationModel \<Rightarrow> event list \<Rightarrow> error option \<times> event list" where
  "transferStep sys dmm tr =
     (let r = Transfer sys dmm
                (tr @ [Print ''Step 2: Transferring data to destination...\<newline>''])
      in case fst r of
        Some err \<Rightarrow> (Some (TransferFailed err), snd r)
      | None \<Rightarrow> (None, snd r @ [Print ''Data transfer completed successfully!\<newline>'']))"

definition restoreStep ::
  "system \<Rightarrow> DataMigrationModel \<Rightarrow> event list \<Rightarrow> error option \<times> event list" where
  "restoreStep sys dmm tr =
     (if TrimSpace (RestoreCmd (Destination dmm)) \<noteq> [] then
        (let r = Restore sys dmm (tr @ [Print ''Step 3: Restoring data...\<newline>''])
         in case fst r of
           Some err \<Rightarrow> (Some (RestoreFailed err), snd r)
         | None \<Rightarrow> (None, snd r @ [Print ''Restore completed successfully!\<newline>'']))
      else (None, tr))"

definition MigrateData ::
  "system \<Rightarrow> DataMigrationModel \<Rightarrow> event list \<Rightarrow> error option \<times> event list" where
  "MigrateData sys dmm tr =
     (let b = backupStep sys dmm tr in
      case fst b of
        Some err \<Rightarrow> (Some err, snd b)
      | None \<Rightarrow>
          (let t = transferStep sys dmm (snd b) in
           case fst t of
             Some err \<Rightarrow> (Some err, snd t)
           | None \<Rightarrow> restoreStep sys dmm (snd t)))"

section \<open>Sample endpoints, tasks and systems\<close>

definition noOptions :: RsyncOption where
  "noOptions =
     \<lparr>Compress = False, Archive = False, Verbose = False, Delete = False, Progress = False,
      DryRun = False, RsyncPath = [], Exclude = [], Include = [],
      InsecureSkipHostKeyVerification = False\<rparr>"

definition localEndpoint :: "string \<Rightarrow> EndpointDetails" where
  "localEndpoint path = zeroEndpoint\<lparr>DataPath := path\<rparr>"

definition remoteEndpoint :: "string \<Rightarrow> string \<Rightarrow> string \<Rightarrow> EndpointDetails" where
  "remoteEndpoint user host path =
     zeroEndpoint\<lparr>Username := user, HostIP := host, DataPath := path\<rparr>"

definition mkTask :: "EndpointDetails \<Rightarrow> EndpointDetails \<Rightarrow> DataMigrationModel" where
  "mkTask src dst = \<lparr>Source = src, Destination = dst, RsyncOptions = noOptions\<rparr>"

text \<open>The relay task of the specification: \<^verbatim>\<open>u1@h1:/src\<close> to \<^verbatim>\<open>u2@h2:/dst\<close>.\<close>

definition relayTask :: DataMigrationModel where
  "relayTask = mkTask (remoteEndpoint ''u1'' ''h1'' ''/src'') (remoteEndpoint ''u2'' ''h2'' ''/dst'')"

text \<open>A system in which every process succeeds with no output.\<close>

definition allSucceed :: system where
  "allSucceed =
     \<lparr>mkdirTemp = (\<lambda>tr dir pattern. Inr ''/tmp/transx-relay-1''),
      combinedOutput = (\<lambda>tr argv. ([], None))\<rparr>"

text \<open>A system in which every process fails.\<close>

definition allFail :: system where
  "allFail =
     \<lparr>mkdirTemp = (\<lambda>tr dir pattern. Inr ''/tmp/transx-relay-1''),
      combinedOutput = (\<lambda>tr argv. (''connection refused'', Some ''exit status 255''))\<rparr>"

text \<open>A system in which the first process succeeds and every later one fails.\<close>

definition secondFails :: system where
  "secondFails =
     \<lparr>mkdirTemp = (\<lambda>tr dir pattern. Inr ''/tmp/transx-relay-1''),
      combinedOutput = (\<lambda>tr argv. if procs tr = [] then ([], None)
                                   else (''connection refused'', Some ''exit status 255''))\<rparr>"

text \<open>A system in which no temporary directory can be created.\<close>

definition noTempDir :: system where
  "noTempDir =
     \<lparr>mkdirTemp = (\<lambda>tr dir pattern. Inl ''no space left on device''),
      combinedOutput = (\<lambda>tr argv. ([], None))\<rparr>"

text \<open>
  A direct task from a remote source with a port and the host-key option but no key
  path, and the same task with a key path.
\<close>

definition portOnlyTask :: DataMigrationModel where
  "portOnlyTask =
     \<lparr>Source = remoteEndpoint ''u'' ''h'' ''/d''\<lparr>SSHPort := 2222\<rparr>,
      Destination = localEndpoint ''/b'',
      RsyncOptions = noOptions\<lparr>InsecureSkipHostKeyVerification := True\<rparr>\<rparr>"

definition portKeyTask :: DataMigrationModel where
  "portKeyTask =
     \<lparr>Source = remoteEndpoint ''u'' ''h'' ''/d''\<lparr>SSHPort := 2222, SSHPrivateKeyPath := ''ks''\<rparr>,
      Destination = localEndpoint ''/b'',
      RsyncOptions = noOptions\<lparr>InsecureSkipHostKeyVerification := True\<rparr>\<rparr>"

section \<open>Basic facts\<close>

text \<open>
  Rules that evaluate the library functions and the samples on closed terms. The
  recursive ones unfold for ever on a term with variables, so they are used on closed
  terms only.
\<close>

lemmas string_eval =
  TrimSpace_def TrimRight_def lastIndexFunc.simps bytes_def IsSpace_def DecodeLastRune_def
  Itoa_def digits.simps

lemmas sample_defs =
  noOptions_def localEndpoint_def remoteEndpoint_def mkTask_def zeroEndpoint_def
  allSucceed_def allFail_def

lemma TrimSpace_Nil: "TrimSpace [] = []"
  by (simp add: TrimSpace_def TrimRight_def lastIndexFunc.simps)

lemma Validate_no_MissingHost: "Validate task \<noteq> Some (MissingHost sd)"
  by (simp add: Validate_def Let_def isRemote_def)

lemma CombinedOutput_no_MissingHostIP:
  "snd (fst (CombinedOutput sys argv tr)) \<noteq> Some MissingHostIP"
  by (cases "snd (combinedOutput sys tr argv)") (simp_all add: CombinedOutput_def)

lemma executeCommand_no_MissingHostIP:
  "snd (fst (executeCommand sys commandToExecute endpoint sshConfig tr)) \<noteq> Some MissingHostIP"
  by (simp add: executeCommand_def isRemote_def CombinedOutput_no_MissingHostIP)

subsection \<open>Strings that are not blank\<close>

lemma firstInfo_bounds:
  "firstInfo b = Some (sz, lo, hi) \<Longrightarrow> 128 \<le> lo \<and> 2 \<le> sz \<and> sz \<le> 4"
  by (simp add: firstInfo_def split: if_splits)

lemma not_IsSpace_RuneError: "\<not> IsSpace RuneError"
  by (simp add: IsSpace_def RuneError_def)

lemma DecodeRune_Some:
  assumes "\<not> b < 128" and "firstInfo b = Some (sz, lo, hi)"
  shows "DecodeRune (b # bs) =
          (if Suc (length bs) < sz then (RuneError, 1)
          else if bs ! 0 < lo \<or> hi < bs ! 0 then (RuneError, 1)
          else if sz \<le> 2 then ((b mod 32) * 64 + bs ! 0 mod 64, 2)
          else if \<not> contByte (bs ! 1) then (RuneError, 1)
          else if sz \<le> 3
            then ((b mod 16) * 4096 + (bs ! 0 mod 64) * 64 + bs ! 1 mod 64, 3)
          else if \<not> contByte (bs ! 2) then (RuneError, 1)
          else ((b mod 8) * 262144 + (bs ! 0 mod 64) * 4096
                  + (bs ! 1 mod 64) * 64 + bs ! 2 mod 64, 4))"
  using assms by simp

lemma DecodeRune_width_bounds:
  "1 \<le> snd (DecodeRune (b # bs)) \<and> snd (DecodeRune (b # bs)) \<le> Suc (length bs)
   \<and> snd (DecodeRune (b # bs)) \<le> 4"
proof (cases "b < 128")
  case True then show ?thesis by simp
next
  case nb: False
  show ?thesis
  proof (cases "firstInfo b")
    case None then show ?thesis using nb by simp
  next
    case (Some t)
    obtain sz lo hi where t: "firstInfo b = Some (sz, lo, hi)" using Some by (cases t) simp
    from firstInfo_bounds[OF t] show ?thesis
      unfolding DecodeRune_Some[OF nb t] by (simp split: if_splits)
  qed
qed

lemma DecodeRune_tail_bytes:
  assumes "Suc i < snd (DecodeRune (b # bs))"
  shows "128 \<le> bs ! i"
proof (cases "b < 128")
  case True then show ?thesis using assms by simp
next
  case nb: False
  show ?thesis
  proof (cases "firstInfo b")
    case None then show ?thesis using nb assms by simp
  next
    case (Some t)
    obtain sz lo hi where t: "firstInfo b = Some (sz, lo, hi)" using Some by (cases t) simp
    note bnd = firstInfo_bounds[OF t]
    have w4: "snd (DecodeRune (b # bs)) \<le> 4" using DecodeRune_width_bounds by blast
    then consider "i = 0" | "i = 1" | "i = 2" using assms by linarith
    then show ?thesis
    proof cases
      case 1
      then show ?thesis using assms bnd unfolding DecodeRune_Some[OF nb t]
        by (simp split: if_splits)
    next
      case 2
      then show ?thesis using assms bnd unfolding DecodeRune_Some[OF nb t]
        by (simp add: contByte_def split: if_splits)
    next
      case 3
      then show ?thesis using assms bnd unfolding DecodeRune_Some[OF nb t]
        by (simp add: contByte_def split: if_splits)
    qed
  qed
qed


text \<open>
  A byte is plain when it is an ASCII character other than white space. White space is
  never trimmed across a plain byte.
\<close>

lemma TrimLeft_keeps_plain:
  assumes "c \<in> set s" and "(of_char c :: nat) < 128" and "\<not> IsSpace (of_char c)"
  shows "c \<in> set (TrimLeft s)"
  using assms(1)
proof (induction s rule: TrimLeft.induct)
  case 1
  then show ?case by simp
next
  case (2 x xs)
  let ?d = "DecodeRune (bytes (x # xs))"
  show ?case
  proof (cases "IsSpace (fst ?d)")
    case False
    then show ?thesis using "2.prems" by simp
  next
    case True
    have d: "?d = DecodeRune (of_char x # bytes xs)" by (simp add: bytes_def)
    have "c \<noteq> x"
    proof
      assume "c = x"
      then have "(of_char x :: nat) < 128" using assms(2) by simp
      then have "fst ?d = of_char x" by (simp add: bytes_def)
      then show False using True assms(3) \<open>c = x\<close> by simp
    qed
    then have "c \<in> set xs" using "2.prems" by simp
    then obtain j where j: "j < length xs" "xs ! j = c" by (auto simp: in_set_conv_nth)
    have "\<not> Suc j < snd ?d"
    proof
      assume "Suc j < snd ?d"
      then have "128 \<le> bytes xs ! j" unfolding d by (rule DecodeRune_tail_bytes)
      then show False using j assms(2) by (simp add: bytes_def)
    qed
    then have "snd ?d - 1 \<le> j" by simp
    then have "drop (snd ?d - 1) xs ! (j - (snd ?d - 1)) = c"
        and "j - (snd ?d - 1) < length (drop (snd ?d - 1) xs)"
      using j by simp_all
    then have "c \<in> set (drop (snd ?d - 1) xs)"
      by (metis nth_mem)
    then have "c \<in> set (TrimLeft (drop (snd ?d - 1) xs))"
      using "2.IH" True by simp
    then show ?thesis using True by simp
  qed
qed

lemma DecodeLastRune_space_bytes:
  assumes "s \<noteq> []" and "IsSpace (fst (DecodeLastRune s))"
    and "length s - snd (DecodeLastRune s) \<le> j" and "j < length s"
  shows "128 \<le> s ! j \<or> IsSpace (s ! j)"
proof (cases "s ! (length s - 1) < 128")
  case True
  then have "DecodeLastRune s = (s ! (length s - 1), 1)"
    using assms(1) by (simp add: DecodeLastRune_def)
  moreover from this have "j = length s - 1" using assms(3,4) by simp
  ultimately show ?thesis using assms(2) by simp
next
  case False
  define lim where "lim = length s - 4"
  define start where
    "start = (case find (\<lambda>i. \<not> contByte (s ! i)) (rev [lim ..< length s - 1]) of
                Some i \<Rightarrow> i | None \<Rightarrow> lim - 1)"
  define d where "d = DecodeRune (drop start s)"
  have dl: "DecodeLastRune s = (if start + snd d \<noteq> length s then (RuneError, 1) else d)"
    unfolding d_def start_def lim_def using assms(1) False
    by (simp add: DecodeLastRune_def Let_def)
  have ok: "start + snd d = length s"
    using assms(2) not_IsSpace_RuneError unfolding dl by (auto split: if_splits)
  then have dd: "DecodeLastRune s = d" using dl by simp
  have lt: "start < length s"
  proof (cases "find (\<lambda>i. \<not> contByte (s ! i)) (rev [lim ..< length s - 1])")
    case None
    then show ?thesis using assms(1) by (simp add: start_def lim_def)
  next
    case (Some i)
    then have "i \<in> set (rev [lim ..< length s - 1])" by (metis find_Some_iff nth_mem)
    then show ?thesis using Some by (auto simp: start_def)
  qed
  then obtain b bs where bs: "drop start s = b # bs"
    by (cases "drop start s") auto
  have sj: "start \<le> j" using assms(3) ok dd by simp
  show ?thesis
  proof (cases "j = start")
    case True
    have "\<not> b < 128"
    proof
      assume "b < 128"
      then have "snd d = 1" by (simp add: d_def bs)
      then have "start = length s - 1" using ok by simp
      moreover have "b = s ! start" using bs lt by (metis nth_via_drop)
      ultimately show False using False \<open>b < 128\<close> by simp
    qed
    moreover have "b = s ! start" using bs lt by (metis nth_via_drop)
    ultimately show ?thesis using True by simp
  next
    case ne: False
    then obtain i where i: "j = start + Suc i" using sj
      by (metis add_Suc_right le_neq_implies_less less_iff_Suc_add)
    have "Suc i < snd d" using assms(4) ok i by simp
    then have "128 \<le> bs ! i" unfolding d_def bs by (rule DecodeRune_tail_bytes)
    moreover have "s ! j = bs ! i"
    proof -
      have "s ! j = drop start s ! Suc i" using i lt by simp
      then show ?thesis by (simp add: bs)
    qed
    ultimately show ?thesis by simp
  qed
qed


lemma lastIndexFunc_plain:
  assumes "(of_char c :: nat) < 128" and "\<not> IsSpace (of_char c)"
  shows "c \<in> set s \<Longrightarrow> 0 \<le> lastIndexFunc s"
proof (induction s rule: lastIndexFunc.induct)
  case (1 s)
  let ?d = "DecodeLastRune (bytes s)"
  have ne: "s \<noteq> []" using "1.prems" by auto
  show ?case
  proof (cases "IsSpace (fst ?d)")
    case False
    then show ?thesis using ne by (simp add: lastIndexFunc.simps[of s])
  next
    case True
    obtain j where j: "j < length s" "s ! j = c"
      using "1.prems" by (auto simp: in_set_conv_nth)
    have "j < length s - snd ?d"
    proof (rule ccontr)
      assume "\<not> j < length s - snd ?d"
      then have "length (bytes s) - snd ?d \<le> j" and "j < length (bytes s)"
        using j by (simp_all add: bytes_def)
      moreover have "bytes s \<noteq> []" using ne by (simp add: bytes_def)
      ultimately have "128 \<le> bytes s ! j \<or> IsSpace (bytes s ! j)"
        using True DecodeLastRune_space_bytes by blast
      then show False using j assms by (simp add: bytes_def)
    qed
    then have "c \<in> set (take (length s - snd ?d) s)"
      using j by (metis in_set_conv_nth length_take min_less_iff_conj nth_take)
    then have "0 \<le> lastIndexFunc (take (length s - snd ?d) s)"
      using "1.IH" ne True by simp
    then show ?thesis using ne True by (simp add: lastIndexFunc.simps[of s])
  qed
qed

lemma TrimRight_plain:
  assumes "c \<in> set s" and "(of_char c :: nat) < 128" and "\<not> IsSpace (of_char c)"
  shows "TrimRight s \<noteq> []"
proof -
  have ne: "s \<noteq> []" using assms(1) by auto
  have i: "0 \<le> lastIndexFunc s" using lastIndexFunc_plain[OF assms(2,3) assms(1)] .
  obtain b bs where "bytes s = b # bs" using ne by (cases s) (simp_all add: bytes_def)
  then have w: "0 < snd (DecodeRune (bytes s))"
    using DecodeRune_width_bounds[of b bs] by simp
  show ?thesis using ne i w by (simp add: TrimRight_def Let_def)
qed

text \<open>A string with a plain byte is not blank.\<close>

lemma TrimSpace_plain:
  assumes "c \<in> set s" and "(of_char c :: nat) < 128" and "\<not> IsSpace (of_char c)"
  shows "TrimSpace s \<noteq> []"
  unfolding TrimSpace_def
  using TrimRight_plain[OF TrimLeft_keeps_plain[OF assms] assms(2,3)] .

lemma getRsyncPath_remote_nonblank: "isRemote e \<Longrightarrow> TrimSpace (getRsyncPath e) \<noteq> []"
proof -
  assume "isRemote e"
  then have "CHR '':'' \<in> set (getRsyncPath e)" by (simp add: getRsyncPath_def)
  then show ?thesis by (rule TrimSpace_plain) (simp_all add: IsSpace_def)
qed

lemma getRsyncPath_blank_iff:
  "(TrimSpace (getRsyncPath e) = [] \<or> TrimSpace (DataPath e) = []) = (TrimSpace (DataPath e) = [])"
  using getRsyncPath_remote_nonblank[of e] by (auto simp: getRsyncPath_def)

text \<open>
  \<open>Validate\<close> with the tests that cannot fail removed: a resolved address is blank only
  when the data path is, and a remote endpoint has a host.
\<close>

lemma Validate_eq:
  "Validate task =
     (if TrimSpace (DataPath (Source task)) = [] then Some (MissingPath SourceSide)
      else if TrimSpace (DataPath (Destination task)) = [] then Some (MissingPath DestinationSide)
      else if isRemote (Source task) \<and> SSHPort (Source task) \<noteq> 0
           \<and> (SSHPort (Source task) < 1 \<or> SSHPort (Source task) > 65535)
        then Some (InvalidPort SourceSide (SSHPort (Source task)))
      else if isRemote (Destination task) \<and> SSHPort (Destination task) \<noteq> 0
           \<and> (SSHPort (Destination task) < 1 \<or> SSHPort (Destination task) > 65535)
        then Some (InvalidPort DestinationSide (SSHPort (Destination task)))
      else None)"
proof -
  have h: "\<And>e. \<not> (isRemote e \<and> TrimSpace (HostIP e) = [])" by (simp add: isRemote_def)
  show ?thesis
    unfolding Validate_def Let_def getRsyncPath_blank_iff by (simp only: h if_False)
qed

subsection \<open>Actions\<close>

lemma procs_append: "procs (a @ b) = procs a @ procs b"
  by (induction a rule: procs.induct) simp_all

lemma Join_ssh_nonempty: "Join (''ssh'' # xs) sep \<noteq> []"
  by (cases xs) simp_all

lemma sshOptString_empty_iff:
  "sshOptString task = [] \<longleftrightarrow>
     \<not> (operationInvolvesRemoteRsync task
        \<and> SSHPrivateKeyPath (activeRemoteEndpointForRsync task) \<noteq> [])"
  by (simp add: sshOptString_def Let_def Join_ssh_nonempty)

subsection \<open>The sample strings\<close>

lemma sample_strings:
  "TrimSpace ''/a'' \<noteq> []" "TrimSpace ''/b'' \<noteq> []" "TrimSpace ''/d'' \<noteq> []"
  "TrimSpace ''/src'' \<noteq> []" "TrimSpace ''/dst'' \<noteq> []"
  "TrimSpace ''h'' \<noteq> []" "TrimSpace ''h1'' \<noteq> []" "TrimSpace ''h2'' \<noteq> []"
  "TrimSpace ''u'' \<noteq> []" "TrimSpace ''u1'' \<noteq> []" "TrimSpace ''u2'' \<noteq> []"
  "TrimSpace ''load'' \<noteq> []" "TrimSpace ''dump'' \<noteq> []"
  "TrimSpace ''ks'' \<noteq> []" "TrimSpace ''kd'' \<noteq> []"
  by (simp_all add: string_eval)

lemma relayTask_facts:
  "IsRelayMode relayTask" "Validate relayTask = None"
  "rsyncCmdPath relayTask = ''rsync''" "rsyncArgs relayTask = []"
  "getRsyncPath (Source relayTask) = ''u1@h1:/src''"
  "getRsyncPath (Destination relayTask) = ''u2@h2:/dst''"
  by (simp_all add: IsRelayMode_def Validate_eq isRemote_def rsyncCmdPath_def rsyncArgs_def
        optionArgs_def sshOptString_empty_iff operationInvolvesRemoteRsync_def
        activeRemoteEndpointForRsync_def getRsyncPath_def relayTask_def sample_defs
        sample_strings)

section \<open>Properties of endpoints\<close>

text \<open>
  Claim C3. For every endpoint, \<open>isRemote\<close> is true if and only if the host address is
  not empty after trimming white space, whatever the other fields (user name, port, paths,
  key path, commands) are; an endpoint with an empty host address is local whatever the
  other fields are.
\<close>

theorem isRemote_iff_trimmed_host_nonempty:
  "isRemote \<lparr>Username = u, HostIP = h, SSHPort = p, DataPath = d, SSHPrivateKeyPath = k,
             BackupCmd = b, RestoreCmd = r\<rparr> = (TrimSpace h \<noteq> [])
   \<and> \<not> isRemote \<lparr>Username = u, HostIP = [], SSHPort = p, DataPath = d,
                  SSHPrivateKeyPath = k, BackupCmd = b, RestoreCmd = r\<rparr>"
  by (simp add: isRemote_def TrimSpace_Nil)

text \<open>
  At concrete endpoints: host \<^verbatim>\<open>h\<close> with every other field unset is remote; a host of
  two blanks, and an empty host, with every other field set are local.
\<close>

theorem isRemote_iff_trimmed_host_nonempty_witness:
  "isRemote \<lparr>Username = [], HostIP = ''h'', SSHPort = 0, DataPath = [], SSHPrivateKeyPath = [],
             BackupCmd = [], RestoreCmd = []\<rparr>
   \<and> \<not> isRemote \<lparr>Username = ''u'', HostIP = ''  '', SSHPort = 22, DataPath = ''/d'',
                  SSHPrivateKeyPath = ''k'', BackupCmd = ''b'', RestoreCmd = ''r''\<rparr>
   \<and> \<not> isRemote \<lparr>Username = ''u'', HostIP = [], SSHPort = 22, DataPath = ''/d'',
                  SSHPrivateKeyPath = ''k'', BackupCmd = ''b'', RestoreCmd = ''r''\<rparr>"
proof -
  have a: "TrimSpace ''h'' \<noteq> []" by (simp add: string_eval)
  have b: "TrimSpace ''  '' = []" by (simp add: string_eval)
  show ?thesis
    using isRemote_iff_trimmed_host_nonempty [of "[]" "''h''" 0 "[]" "[]" "[]" "[]"]
      isRemote_iff_trimmed_host_nonempty [of "''u''" "''  ''" 22 "''/d''" "''k''" "''b''" "''r''"]
      a b
    by simp
qed

text \<open>
  Claim C4. The address that \<open>getRsyncPath\<close> resolves is the data path unchanged when
  the endpoint is local, \<^verbatim>\<open>user@host:path\<close> when it is remote and the user name is set
  (not blank), and \<^verbatim>\<open>host:path\<close> when it is remote and the user name is blank, in
  particular empty.
\<close>

theorem getRsyncPath_cases:
  "(\<not> isRemote e \<longrightarrow> getRsyncPath e = DataPath e)
   \<and> (isRemote e \<and> TrimSpace (Username e) \<noteq> []
        \<longrightarrow> getRsyncPath e = Username e @ ''@'' @ HostIP e @ '':'' @ DataPath e)
   \<and> (isRemote e \<and> TrimSpace (Username e) = []
        \<longrightarrow> getRsyncPath e = HostIP e @ '':'' @ DataPath e)
   \<and> (isRemote e \<and> Username e = []
        \<longrightarrow> getRsyncPath e = HostIP e @ '':'' @ DataPath e)"
  by (simp add: getRsyncPath_def TrimSpace_Nil)

text \<open>The three examples of the specification.\<close>

theorem getRsyncPath_cases_witness:
  "getRsyncPath (localEndpoint ''/a/b'') = ''/a/b''
   \<and> getRsyncPath (remoteEndpoint ''u'' ''h'' ''/d'') = ''u@h:/d''
   \<and> getRsyncPath (remoteEndpoint [] ''h'' ''/d'') = ''h:/d''"
proof -
  have l: "\<not> isRemote (localEndpoint ''/a/b'')"
    by (simp add: isRemote_def sample_defs string_eval)
  have r1: "isRemote (remoteEndpoint ''u'' ''h'' ''/d'')"
    by (simp add: isRemote_def sample_defs string_eval)
  have u1: "TrimSpace (Username (remoteEndpoint ''u'' ''h'' ''/d'')) \<noteq> []"
    by (simp add: sample_defs string_eval)
  have r2: "isRemote (remoteEndpoint [] ''h'' ''/d'')"
    by (simp add: isRemote_def sample_defs string_eval)
  have u2: "Username (remoteEndpoint [] ''h'' ''/d'') = []"
    by (simp add: sample_defs)
  show ?thesis
    using getRsyncPath_cases [of "localEndpoint ''/a/b''"]
      getRsyncPath_cases [of "remoteEndpoint ''u'' ''h'' ''/d''"]
      getRsyncPath_cases [of "remoteEndpoint [] ''h'' ''/d''"]
      l r1 u1 r2 u2
    by (simp add: localEndpoint_def remoteEndpoint_def zeroEndpoint_def)
qed

section \<open>The command executor\<close>

text \<open>
  Claim C7. For every endpoint and every value of the options, \<open>executeCommand\<close> on a
  blank command (empty after trimming) fails with \<open>EmptyCommand\<close> and runs no process:
  the list of actions is unchanged.
\<close>

theorem executeCommand_blank:
  "TrimSpace commandToExecute = [] \<Longrightarrow>
   executeCommand sys commandToExecute endpoint sshConfig tr = (([], Some EmptyCommand), tr)"
  by (simp add: executeCommand_def)

theorem executeCommand_blank_witness:
  "TrimSpace ''   '' = []
   \<and> executeCommand allFail ''   '' (remoteEndpoint ''u'' ''h'' ''/d'') noOptions []
       = (([], Some EmptyCommand), [])"
proof -
  have b: "TrimSpace ''   '' = []" by (simp add: string_eval)
  show ?thesis using b executeCommand_blank [OF b] by simp
qed

text \<open>
  Claim C6. For every command that is not blank and every remote endpoint,
  \<open>executeCommand\<close> runs one process whose command line is: \<^verbatim>\<open>ssh\<close>; then \<^verbatim>\<open>-i\<close> and
  the key path exactly when the key path is set (not blank); then \<^verbatim>\<open>-p\<close> and the port
  exactly when the port is not zero; then the two options that relax host-key checking
  exactly when \<open>InsecureSkipHostKeyVerification\<close> is set; then the option
  \<^verbatim>\<open>ConnectTimeout=30\<close> always; then \<^verbatim>\<open>-t\<close> exactly when the command contains
  \<^verbatim>\<open>sudo\<close>; then \<^verbatim>\<open>user@host\<close>, or the host alone when the user name is blank; then
  the command as one argument.
\<close>

theorem executeCommand_remote:
  assumes "TrimSpace commandToExecute \<noteq> []" and "isRemote endpoint"
  shows "executeCommand sys commandToExecute endpoint sshConfig tr =
     CombinedOutput sys
       ([''ssh'']
        @ (if TrimSpace (SSHPrivateKeyPath endpoint) \<noteq> []
           then [''-i'', SSHPrivateKeyPath endpoint] else [])
        @ (if SSHPort endpoint \<noteq> 0 then [''-p'', Itoa (SSHPort endpoint)] else [])
        @ (if InsecureSkipHostKeyVerification sshConfig
           then [''-o'', ''StrictHostKeyChecking=accept-new'',
                 ''-o'', ''UserKnownHostsFile=/dev/null'']
           else [])
        @ [''-o'', ''ConnectTimeout=30'']
        @ (if Contains commandToExecute ''sudo'' then [''-t''] else [])
        @ [if TrimSpace (Username endpoint) \<noteq> []
           then Username endpoint @ ''@'' @ HostIP endpoint else HostIP endpoint,
           commandToExecute])
       (tr @ [Print (''Executing remote command on ''
                     @ (if TrimSpace (Username endpoint) \<noteq> []
                        then Username endpoint @ ''@'' @ HostIP endpoint else HostIP endpoint)
                     @ ''...\<newline>'')])"
  using assms by (simp add: executeCommand_def isRemote_def sshCmdParts_def userHost_def)

text \<open>
  With every optional part present, and with none: the command lines of the processes
  run.
\<close>

theorem executeCommand_remote_witness:
  "procs (snd (executeCommand allSucceed ''sudo systemctl stop db''
          (remoteEndpoint ''u'' ''h'' ''/d''\<lparr>SSHPort := 2222, SSHPrivateKeyPath := ''/k/id''\<rparr>)
          (noOptions\<lparr>InsecureSkipHostKeyVerification := True\<rparr>) []))
     = [[''ssh'', ''-i'', ''/k/id'', ''-p'', ''2222'', ''-o'', ''StrictHostKeyChecking=accept-new'',
         ''-o'', ''UserKnownHostsFile=/dev/null'', ''-o'', ''ConnectTimeout=30'', ''-t'',
         ''u@h'', ''sudo systemctl stop db'']]
   \<and> procs (snd (executeCommand allSucceed ''ls -l'' (remoteEndpoint [] ''h'' ''/d'') noOptions []))
     = [[''ssh'', ''-o'', ''ConnectTimeout=30'', ''h'', ''ls -l'']]"
proof -
  have c1: "TrimSpace ''sudo systemctl stop db'' \<noteq> []" by (simp add: string_eval)
  have r1: "isRemote (remoteEndpoint ''u'' ''h'' ''/d''\<lparr>SSHPort := 2222, SSHPrivateKeyPath := ''/k/id''\<rparr>)"
    by (simp add: isRemote_def sample_defs string_eval)
  have c2: "TrimSpace ''ls -l'' \<noteq> []" by (simp add: string_eval)
  have r2: "isRemote (remoteEndpoint [] ''h'' ''/d'')"
    by (simp add: isRemote_def sample_defs string_eval)
  show ?thesis
    using executeCommand_remote [OF c1 r1, of allSucceed "noOptions\<lparr>InsecureSkipHostKeyVerification := True\<rparr>" "[]"]
      executeCommand_remote [OF c2 r2, of allSucceed noOptions "[]"]
    by (simp add: CombinedOutput_def sample_defs string_eval)
qed

text \<open>
  Claim C10. The branches that report a missing host are unreachable: \<open>Validate\<close> never
  returns a \<open>MissingHost\<close> error, and \<open>executeCommand\<close> never returns
  \<open>MissingHostIP\<close>, for a remote endpoint or any other, because an endpoint is remote
  exactly when its trimmed host address is not empty, so that the second test inside the
  remote branch cannot hold.
\<close>

theorem MissingHost_unreachable:
  "Validate task \<noteq> Some (MissingHost sd)
   \<and> snd (fst (executeCommand sys commandToExecute endpoint sshConfig tr)) \<noteq> Some MissingHostIP
   \<and> \<not> (isRemote endpoint \<and> TrimSpace (HostIP endpoint) = [])"
  by (simp add: Validate_no_MissingHost executeCommand_no_MissingHostIP isRemote_def)

text \<open>An instance: a task between two local directories, and a remote endpoint.\<close>

theorem MissingHost_unreachable_witness:
  "Validate (mkTask (localEndpoint ''/a'') (localEndpoint ''/b'')) \<noteq> Some (MissingHost SourceSide)
   \<and> snd (fst (executeCommand allSucceed ''ls'' (remoteEndpoint ''u'' ''h'' ''/d'') noOptions []))
       \<noteq> Some MissingHostIP
   \<and> \<not> (isRemote (remoteEndpoint ''u'' ''h'' ''/d'')
        \<and> TrimSpace (HostIP (remoteEndpoint ''u'' ''h'' ''/d'')) = [])"
  using MissingHost_unreachable
    [of "mkTask (localEndpoint ''/a'') (localEndpoint ''/b'')" SourceSide allSucceed "''ls''"
        "remoteEndpoint ''u'' ''h'' ''/d''" noOptions "[]"]
  by simp

section \<open>The phases invoked on their own\<close>

text \<open>
  Claim C9, as stated, fails: \<open>Backup\<close> invoked on its own on a task without a backup
  command returns an error (and likewise \<open>Restore\<close>); it does not return success.
\<close>

theorem Backup_Restore_blank_counterexample:
  "TrimSpace (BackupCmd (Source (mkTask (localEndpoint ''/a'') (localEndpoint ''/b'')))) = []
   \<and> Backup allSucceed (mkTask (localEndpoint ''/a'') (localEndpoint ''/b'')) []
       = (Some BackupCmdNotDefined, [])
   \<and> TrimSpace (RestoreCmd (Destination (mkTask (localEndpoint ''/a'') (localEndpoint ''/b'')))) = []
   \<and> Restore allSucceed (mkTask (localEndpoint ''/a'') (localEndpoint ''/b'')) []
       = (Some RestoreCmdNotDefined, [])"
  by (simp add: Backup_def Restore_def sample_defs Let_def TrimSpace_Nil)

text \<open>
  Claim C9, amended. When \<open>Backup\<close> is invoked on its own on a task whose source backup
  command is blank, it runs no process, does nothing else, and returns the error that the
  backup command is not defined; likewise \<open>Restore\<close> on a blank destination restore
  command returns the error that the restore command is not defined. It is
  \<open>MigrateData\<close> that skips a blank phase without error: with both commands blank it
  does the transfer alone and returns the result of the transfer.
\<close>

theorem Backup_Restore_blank:
  "(TrimSpace (BackupCmd (Source dmm)) = []
      \<longrightarrow> Backup sys dmm tr = (Some BackupCmdNotDefined, tr))
   \<and> (TrimSpace (RestoreCmd (Destination dmm)) = []
      \<longrightarrow> Restore sys dmm tr = (Some RestoreCmdNotDefined, tr))
   \<and> (TrimSpace (BackupCmd (Source dmm)) = [] \<and> TrimSpace (RestoreCmd (Destination dmm)) = []
      \<longrightarrow> MigrateData sys dmm tr =
           (let t = Transfer sys dmm
                      (tr @ [Print ''Step 2: Transferring data to destination...\<newline>''])
            in case fst t of
              Some err \<Rightarrow> (Some (TransferFailed err), snd t)
            | None \<Rightarrow>
                (None, snd t @ [Print ''Data transfer completed successfully!\<newline>''])))"
  by (simp add: Backup_def Restore_def MigrateData_def backupStep_def transferStep_def
        restoreStep_def Let_def split: option.split)

text \<open>
  A blank backup command on a remote source, no restore command on a remote destination,
  and the whole workflow on a task with neither command.
\<close>

theorem Backup_Restore_blank_witness:
  "Backup allFail (mkTask (remoteEndpoint ''u'' ''h'' ''/a''\<lparr>BackupCmd := ''  ''\<rparr>) (localEndpoint ''/b'')) []
       = (Some BackupCmdNotDefined, [])
   \<and> Restore allFail (mkTask (localEndpoint ''/a'') (remoteEndpoint ''u'' ''h'' ''/b'')) []
       = (Some RestoreCmdNotDefined, [])
   \<and> MigrateData allSucceed (mkTask (localEndpoint ''/a'') (localEndpoint ''/b'')) []
       = (None, [Print ''Step 2: Transferring data to destination...\<newline>'',
                 Exec [''rsync'', ''/a'', ''/b''],
                 Print ''Data transfer completed successfully!\<newline>''])"
proof -
  let ?t1 = "mkTask (remoteEndpoint ''u'' ''h'' ''/a''\<lparr>BackupCmd := ''  ''\<rparr>) (localEndpoint ''/b'')"
  let ?t2 = "mkTask (localEndpoint ''/a'') (remoteEndpoint ''u'' ''h'' ''/b'')"
  let ?t3 = "mkTask (localEndpoint ''/a'') (localEndpoint ''/b'')"
  have b: "TrimSpace (BackupCmd (Source ?t1)) = []" by (simp add: sample_defs string_eval)
  have r: "TrimSpace (RestoreCmd (Destination ?t2)) = []" by (simp add: sample_defs string_eval)
  have b3: "TrimSpace (BackupCmd (Source ?t3)) = []"
    and r3: "TrimSpace (RestoreCmd (Destination ?t3)) = []"
    by (simp_all add: sample_defs TrimSpace_Nil)
  have v: "Validate ?t3 = None"
    by (simp add: Validate_eq isRemote_def sample_defs sample_strings TrimSpace_Nil)
  have t: "Transfer allSucceed ?t3 [Print ''Step 2: Transferring data to destination...\<newline>'']
      = (None, [Print ''Step 2: Transferring data to destination...\<newline>'',
                Exec [''rsync'', ''/a'', ''/b'']])"
    using v
    by (simp add: Transfer_def IsRelayMode_def isRemote_def rsyncArgs_def rsyncCmdPath_def
          optionArgs_def sshOptString_empty_iff operationInvolvesRemoteRsync_def
          getRsyncPath_def CombinedOutput_def sample_defs TrimSpace_Nil)
  show ?thesis
    using Backup_Restore_blank [of ?t1 allFail "[]"] Backup_Restore_blank [of ?t2 allFail "[]"]
      Backup_Restore_blank [of ?t3 allSucceed "[]"] b r b3 r3 t
    by simp
qed

section \<open>Validation of ports\<close>

text \<open>
  Claim C8, as stated, fails: a local source with port 70000 is accepted, so
  \<open>InvalidPort\<close> is not returned for every endpoint whose port is set and out of range;
  and a remote source with port 70000 and no data path is rejected with \<open>MissingPath\<close>,
  not \<open>InvalidPort\<close>.
\<close>

theorem Validate_port_counterexample:
  "\<not> isRemote (Source (mkTask (localEndpoint ''/a''\<lparr>SSHPort := 70000\<rparr>) (localEndpoint ''/b'')))
   \<and> SSHPort (Source (mkTask (localEndpoint ''/a''\<lparr>SSHPort := 70000\<rparr>) (localEndpoint ''/b'')))
       = 70000
   \<and> Validate (mkTask (localEndpoint ''/a''\<lparr>SSHPort := 70000\<rparr>) (localEndpoint ''/b'')) = None
   \<and> Validate (mkTask (remoteEndpoint ''u'' ''h'' []\<lparr>SSHPort := 70000\<rparr>) (localEndpoint ''/b''))
       = Some (MissingPath SourceSide)"
  by (simp add: Validate_eq isRemote_def sample_defs sample_strings TrimSpace_Nil)

text \<open>
  Claim C8, amended. \<open>Validate\<close> reports a blank data path before any port: a blank
  source path gives \<open>MissingPath\<close> for the source, and otherwise a blank destination
  path gives \<open>MissingPath\<close> for the destination. On a task whose two data paths are not
  blank, it fails with \<open>InvalidPort\<close> for a remote source whose port is not zero and
  outside \<open>[1, 65535]\<close>, and, when the source passes, for a remote destination with such
  a port; it accepts the task when each endpoint is local, or has port 0 (the default), or
  has a port in \<open>[1, 65535]\<close>: the port of a local endpoint is not checked. In particular
  it rejects port 70000 on a remote source.
\<close>

theorem Validate_port:
  "(TrimSpace (DataPath (Source task)) = []
      \<longrightarrow> Validate task = Some (MissingPath SourceSide))
   \<and> (TrimSpace (DataPath (Source task)) \<noteq> [] \<and> TrimSpace (DataPath (Destination task)) = []
      \<longrightarrow> Validate task = Some (MissingPath DestinationSide))
   \<and> (TrimSpace (DataPath (Source task)) \<noteq> [] \<and> TrimSpace (DataPath (Destination task)) \<noteq> []
      \<longrightarrow>
        (isRemote (Source task) \<and> SSHPort (Source task) \<noteq> 0
           \<and> (SSHPort (Source task) < 1 \<or> 65535 < SSHPort (Source task))
          \<longrightarrow> Validate task = Some (InvalidPort SourceSide (SSHPort (Source task))))
        \<and> (\<not> (isRemote (Source task) \<and> SSHPort (Source task) \<noteq> 0
                \<and> (SSHPort (Source task) < 1 \<or> 65535 < SSHPort (Source task)))
            \<and> isRemote (Destination task) \<and> SSHPort (Destination task) \<noteq> 0
            \<and> (SSHPort (Destination task) < 1 \<or> 65535 < SSHPort (Destination task))
          \<longrightarrow> Validate task = Some (InvalidPort DestinationSide (SSHPort (Destination task))))
        \<and> ((\<not> isRemote (Source task) \<or> SSHPort (Source task) = 0
              \<or> (1 \<le> SSHPort (Source task) \<and> SSHPort (Source task) \<le> 65535))
            \<and> (\<not> isRemote (Destination task) \<or> SSHPort (Destination task) = 0
              \<or> (1 \<le> SSHPort (Destination task) \<and> SSHPort (Destination task) \<le> 65535))
          \<longrightarrow> Validate task = None)
        \<and> (isRemote (Source task) \<and> SSHPort (Source task) = 70000
          \<longrightarrow> Validate task = Some (InvalidPort SourceSide 70000)))"
  by (auto simp: Validate_eq)

text \<open>
  Port 70000 on a remote source is rejected, port 0 on the same endpoint is accepted, a
  negative port on a remote destination is rejected, and with a blank data path on either
  side the path is reported, not the port 70000 of the remote side.
\<close>

theorem Validate_port_witness:
  "Validate (mkTask (remoteEndpoint ''u'' ''h'' ''/d''\<lparr>SSHPort := 70000\<rparr>) (localEndpoint ''/b''))
     = Some (InvalidPort SourceSide 70000)
   \<and> Validate (mkTask (remoteEndpoint ''u'' ''h'' ''/d''\<lparr>SSHPort := 0\<rparr>) (localEndpoint ''/b''))
     = None
   \<and> Validate (mkTask (localEndpoint ''/a'') (remoteEndpoint ''u'' ''h'' ''/d''\<lparr>SSHPort := - 1\<rparr>))
     = Some (InvalidPort DestinationSide (- 1))
   \<and> Validate (mkTask (remoteEndpoint ''u'' ''h'' ''/d''\<lparr>SSHPort := 70000\<rparr>) (localEndpoint []))
     = Some (MissingPath DestinationSide)
   \<and> Validate (mkTask (localEndpoint []) (remoteEndpoint ''u'' ''h'' ''/d''\<lparr>SSHPort := 70000\<rparr>))
     = Some (MissingPath SourceSide)"
proof -
  let ?t1 = "mkTask (remoteEndpoint ''u'' ''h'' ''/d''\<lparr>SSHPort := 70000\<rparr>) (localEndpoint ''/b'')"
  let ?t2 = "mkTask (remoteEndpoint ''u'' ''h'' ''/d''\<lparr>SSHPort := 0\<rparr>) (localEndpoint ''/b'')"
  let ?t3 = "mkTask (localEndpoint ''/a'') (remoteEndpoint ''u'' ''h'' ''/d''\<lparr>SSHPort := - 1\<rparr>)"
  let ?t4 = "mkTask (remoteEndpoint ''u'' ''h'' ''/d''\<lparr>SSHPort := 70000\<rparr>) (localEndpoint [])"
  let ?t5 = "mkTask (localEndpoint []) (remoteEndpoint ''u'' ''h'' ''/d''\<lparr>SSHPort := 70000\<rparr>)"
  have s1: "TrimSpace (DataPath (Source ?t1)) \<noteq> []" and d1: "TrimSpace (DataPath (Destination ?t1)) \<noteq> []"
    and s2: "TrimSpace (DataPath (Source ?t2)) \<noteq> []" and d2: "TrimSpace (DataPath (Destination ?t2)) \<noteq> []"
    and s3: "TrimSpace (DataPath (Source ?t3)) \<noteq> []" and d3: "TrimSpace (DataPath (Destination ?t3)) \<noteq> []"
    and s4: "TrimSpace (DataPath (Source ?t4)) \<noteq> []" and d4: "TrimSpace (DataPath (Destination ?t4)) = []"
    and s5: "TrimSpace (DataPath (Source ?t5)) = []"
    by (simp_all add: sample_defs sample_strings TrimSpace_Nil)
  show ?thesis
    using Validate_port [of ?t1] Validate_port [of ?t2] Validate_port [of ?t3]
      Validate_port [of ?t4] Validate_port [of ?t5] s1 d1 s2 d2 s3 d3 s4 d4 s5
    by (simp add: isRemote_def sample_defs sample_strings TrimSpace_Nil)
qed

section \<open>The workflow\<close>

text \<open>
  Claim C2. On a task whose source backup command is blank, \<open>MigrateData\<close> skips the
  backup phase: its first action is the announcement of the transfer, and no process is
  run for a backup. It then attempts the transfer and, when the transfer succeeds and the
  destination restore command is set, runs the restore. In general the phases run in the
  order backup, transfer, restore, and the first phase that fails ends the workflow with
  its error: the later phases are not run.
\<close>

theorem MigrateData_phases:
  "(TrimSpace (BackupCmd (Source dmm)) = [] \<longrightarrow>
      MigrateData sys dmm tr =
        (let t = Transfer sys dmm (tr @ [Print ''Step 2: Transferring data to destination...\<newline>''])
         in case fst t of
           Some err \<Rightarrow> (Some (TransferFailed err), snd t)
         | None \<Rightarrow>
             if TrimSpace (RestoreCmd (Destination dmm)) = []
             then (None, snd t @ [Print ''Data transfer completed successfully!\<newline>''])
             else
               (let r = Restore sys dmm
                          (snd t @ [Print ''Data transfer completed successfully!\<newline>'',
                                    Print ''Step 3: Restoring data...\<newline>''])
                in case fst r of
                  Some err \<Rightarrow> (Some (RestoreFailed err), snd r)
                | None \<Rightarrow> (None, snd r @ [Print ''Restore completed successfully!\<newline>'']))))
   \<and> (TrimSpace (BackupCmd (Source dmm)) \<noteq> [] \<longrightarrow>
      MigrateData sys dmm tr =
        (let b = Backup sys dmm (tr @ [Print ''Step 1: Backing up data...\<newline>''])
         in case fst b of
           Some err \<Rightarrow> (Some (BackupFailed err), snd b)
         | None \<Rightarrow>
             (let t = Transfer sys dmm
                        (snd b @ [Print ''Backup completed successfully!\<newline>'',
                                  Print ''Step 2: Transferring data to destination...\<newline>''])
              in case fst t of
                Some err \<Rightarrow> (Some (TransferFailed err), snd t)
              | None \<Rightarrow>
                  if TrimSpace (RestoreCmd (Destination dmm)) = []
                  then (None, snd t @ [Print ''Data transfer completed successfully!\<newline>''])
                  else
                    (let r = Restore sys dmm
                               (snd t @ [Print ''Data transfer completed successfully!\<newline>'',
                                         Print ''Step 3: Restoring data...\<newline>''])
                     in case fst r of
                       Some err \<Rightarrow> (Some (RestoreFailed err), snd r)
                     | None \<Rightarrow>
                         (None, snd r @ [Print ''Restore completed successfully!\<newline>''])))))"
  by (simp add: MigrateData_def backupStep_def transferStep_def restoreStep_def Let_def
           split: option.split)

text \<open>
  Without a backup command and with a restore command, in a system where every process
  succeeds: the transfer and then the restore. With both commands, in a system where
  every process fails: the backup is the only process run.
\<close>

theorem MigrateData_phases_witness:
  "MigrateData allSucceed (mkTask (localEndpoint ''/a'') (localEndpoint ''/b''\<lparr>RestoreCmd := ''load''\<rparr>)) []
     = (None,
        [Print ''Step 2: Transferring data to destination...\<newline>'',
         Exec [''rsync'', ''/a'', ''/b''],
         Print ''Data transfer completed successfully!\<newline>'',
         Print ''Step 3: Restoring data...\<newline>'',
         Print ''Executing restore command locally...\<newline>'',
         Print ''Restore command: load\<newline>'',
         Print ''Executing local command...\<newline>'',
         Exec [''sh'', ''-c'', ''load''],
         Print ''Restore completed successfully!\<newline>''])
   \<and> procs (snd (MigrateData allFail
         (mkTask (localEndpoint ''/a''\<lparr>BackupCmd := ''dump''\<rparr>)
                 (localEndpoint ''/b''\<lparr>RestoreCmd := ''load''\<rparr>)) []))
     = [[''sh'', ''-c'', ''dump'']]"
proof -
  let ?t = "mkTask (localEndpoint ''/a'') (localEndpoint ''/b''\<lparr>RestoreCmd := ''load''\<rparr>)"
  let ?u = "mkTask (localEndpoint ''/a''\<lparr>BackupCmd := ''dump''\<rparr>)
                 (localEndpoint ''/b''\<lparr>RestoreCmd := ''load''\<rparr>)"
  have b: "TrimSpace (BackupCmd (Source ?t)) = []"
    by (simp add: sample_defs TrimSpace_Nil)
  have r: "TrimSpace (RestoreCmd (Destination ?t)) \<noteq> []"
    by (simp add: sample_defs sample_strings)
  have v: "Validate ?t = None"
    by (simp add: Validate_eq isRemote_def sample_defs sample_strings TrimSpace_Nil)
  have t: "Transfer allSucceed ?t [Print ''Step 2: Transferring data to destination...\<newline>'']
      = (None, [Print ''Step 2: Transferring data to destination...\<newline>'',
                Exec [''rsync'', ''/a'', ''/b'']])"
    using v
    by (simp add: Transfer_def IsRelayMode_def isRemote_def rsyncArgs_def rsyncCmdPath_def
          optionArgs_def sshOptString_empty_iff operationInvolvesRemoteRsync_def
          getRsyncPath_def CombinedOutput_def sample_defs TrimSpace_Nil)
  have bu: "TrimSpace (BackupCmd (Source ?u)) \<noteq> []"
    by (simp add: sample_defs sample_strings)
  have bk: "Backup allFail ?u [Print ''Step 1: Backing up data...\<newline>'']
      = (Some (BackupCmdFailed ''/a'' (OSError ''exit status 255'') ''connection refused''),
         [Print ''Step 1: Backing up data...\<newline>'',
          Print ''Executing backup command locally...\<newline>'',
          Print ''Backup command: dump\<newline>'',
          Print ''Executing local command...\<newline>'',
          Exec [''sh'', ''-c'', ''dump'']])"
    by (simp add: Backup_def executeCommand_def isRemote_def CombinedOutput_def Let_def
          sample_defs sample_strings TrimSpace_Nil)
  show ?thesis
    using MigrateData_phases [of ?t allSucceed "[]"] MigrateData_phases [of ?u allFail "[]"]
      b r t bu bk
    by (simp add: Restore_def executeCommand_def isRemote_def CombinedOutput_def Let_def
          outputSummary_def sample_defs sample_strings TrimSpace_Nil)
qed

section \<open>The transfer engine\<close>

text \<open>
  What \<open>Transfer\<close> runs in direct mode, for every task that passes \<open>Validate\<close>: the
  sync tool once, with the option flags, the remote-shell option, and the two resolved
  addresses. The endpoint \<open>g\<close> that governs is the source when the source is remote,
  else the destination. The remote-shell option is built from the key path, the port and
  the host-key option of \<open>g\<close>, and it is there only when a side is remote and the key
  path of \<open>g\<close> is not empty.
\<close>

lemma Transfer_direct_command_line:
  assumes "\<not> IsRelayMode task" and "Validate task = None"
  shows "snd (Transfer sys task tr) =
     tr @ [Exec (rsyncCmdPath task # optionArgs (RsyncOptions task)
            @ (let g = (if isRemote (Source task) then Source task else Destination task) in
               if (isRemote (Source task) \<or> isRemote (Destination task))
                  \<and> SSHPrivateKeyPath g \<noteq> []
               then [''-e'',
                     Join ([''ssh'']
                           @ (if TrimSpace (SSHPrivateKeyPath g) \<noteq> []
                              then [''-i'', SSHPrivateKeyPath g] else [])
                           @ (if SSHPort g \<noteq> 0 then [''-p'', Itoa (SSHPort g)] else [])
                           @ (if InsecureSkipHostKeyVerification (RsyncOptions task)
                              then [''-o'', ''StrictHostKeyChecking=accept-new'',
                                    ''-o'', ''UserKnownHostsFile=/dev/null'']
                              else []))
                          '' '']
               else [])
            @ [getRsyncPath (Source task), getRsyncPath (Destination task)])]"
proof -
  have hook: "(if sshOptString task \<noteq> [] then [''-e'', sshOptString task] else []) =
     (let g = (if isRemote (Source task) then Source task else Destination task) in
               if (isRemote (Source task) \<or> isRemote (Destination task))
                  \<and> SSHPrivateKeyPath g \<noteq> []
               then [''-e'',
                     Join ([''ssh'']
                           @ (if TrimSpace (SSHPrivateKeyPath g) \<noteq> []
                              then [''-i'', SSHPrivateKeyPath g] else [])
                           @ (if SSHPort g \<noteq> 0 then [''-p'', Itoa (SSHPort g)] else [])
                           @ (if InsecureSkipHostKeyVerification (RsyncOptions task)
                              then [''-o'', ''StrictHostKeyChecking=accept-new'',
                                    ''-o'', ''UserKnownHostsFile=/dev/null'']
                              else []))
                          '' '']
               else [])"
    unfolding sshOptString_empty_iff
    by (simp add: sshOptString_def operationInvolvesRemoteRsync_def
          activeRemoteEndpointForRsync_def Let_def)
  have "snd (Transfer sys task tr) =
     tr @ [Exec (rsyncCmdPath task # rsyncArgs task
                 @ [getRsyncPath (Source task), getRsyncPath (Destination task)])]"
    using assms by (simp add: Transfer_def CombinedOutput_def Let_def split: option.split)
  then show ?thesis by (simp only: rsyncArgs_def hook append_assoc)
qed

text \<open>
  Claim C5. In direct mode \<open>Transfer\<close> is to pass to the sync tool a remote-shell option
  built from the key, the port and the host-key policy of the source when the source is
  remote, else of the destination when it is remote. The code does not do so for a remote
  endpoint without a key path. For the direct task from the remote source \<^verbatim>\<open>u@h:/d\<close>
  with port 2222, the host-key option set and no key path, which passes \<open>Validate\<close>,
  \<open>Transfer\<close> runs \<^verbatim>\<open>rsync u@h:/d /b\<close>: there is no remote-shell option, and the port
  and the host-key options are dropped. For the same endpoint and options
  \<open>executeCommand\<close> passes \<^verbatim>\<open>-p 2222\<close> and both host-key options to \<^verbatim>\<open>ssh\<close>, and
  \<open>Transfer\<close> itself passes them once the source has a key path.
\<close>

theorem Transfer_direct_remote_shell_dropped:
  "\<not> IsRelayMode portOnlyTask
   \<and> Validate portOnlyTask = None
   \<and> isRemote (Source portOnlyTask)
   \<and> SSHPort (Source portOnlyTask) = 2222
   \<and> SSHPrivateKeyPath (Source portOnlyTask) = []
   \<and> InsecureSkipHostKeyVerification (RsyncOptions portOnlyTask)
   \<and> Transfer allSucceed portOnlyTask [] = (None, [Exec [''rsync'', ''u@h:/d'', ''/b'']])
   \<and> procs (snd (executeCommand allSucceed ''ls'' (Source portOnlyTask)
                   (RsyncOptions portOnlyTask) []))
       = [[''ssh'', ''-p'', ''2222'', ''-o'', ''StrictHostKeyChecking=accept-new'',
           ''-o'', ''UserKnownHostsFile=/dev/null'', ''-o'', ''ConnectTimeout=30'',
           ''u@h'', ''ls'']]
   \<and> Transfer allSucceed portKeyTask []
       = (None,
          [Exec [''rsync'', ''-e'',
                 ''ssh -i ks -p 2222 -o StrictHostKeyChecking=accept-new -o UserKnownHostsFile=/dev/null'',
                 ''u@h:/d'', ''/b'']])"
proof -
  have v: "Validate portOnlyTask = None"
    by (simp add: Validate_eq isRemote_def portOnlyTask_def sample_defs sample_strings
          TrimSpace_Nil)
  have t: "Transfer allSucceed portOnlyTask [] = (None, [Exec [''rsync'', ''u@h:/d'', ''/b'']])"
    using v
    by (simp add: Transfer_def IsRelayMode_def isRemote_def rsyncArgs_def rsyncCmdPath_def
          optionArgs_def sshOptString_empty_iff operationInvolvesRemoteRsync_def
          activeRemoteEndpointForRsync_def getRsyncPath_def CombinedOutput_def
          portOnlyTask_def sample_defs sample_strings TrimSpace_Nil)
  have ls: "TrimSpace ''ls'' \<noteq> []" "Itoa 2222 = ''2222''" "\<not> Contains ''ls'' ''sudo''"
    by (simp_all add: string_eval)
  have e: "procs (snd (executeCommand allSucceed ''ls'' (Source portOnlyTask)
                   (RsyncOptions portOnlyTask) []))
       = [[''ssh'', ''-p'', ''2222'', ''-o'', ''StrictHostKeyChecking=accept-new'',
           ''-o'', ''UserKnownHostsFile=/dev/null'', ''-o'', ''ConnectTimeout=30'',
           ''u@h'', ''ls'']]"
    by (simp add: executeCommand_def sshCmdParts_def userHost_def isRemote_def
          CombinedOutput_def portOnlyTask_def sample_defs sample_strings ls TrimSpace_Nil)
  have vk: "Validate portKeyTask = None"
    by (simp add: Validate_eq isRemote_def portKeyTask_def sample_defs sample_strings
          TrimSpace_Nil)
  have k: "Transfer allSucceed portKeyTask []
       = (None,
          [Exec [''rsync'', ''-e'',
                 ''ssh -i ks -p 2222 -o StrictHostKeyChecking=accept-new -o UserKnownHostsFile=/dev/null'',
                 ''u@h:/d'', ''/b'']])"
    using vk
    by (simp add: Transfer_def IsRelayMode_def isRemote_def rsyncArgs_def rsyncCmdPath_def
          optionArgs_def sshOptString_def operationInvolvesRemoteRsync_def
          activeRemoteEndpointForRsync_def getRsyncPath_def CombinedOutput_def
          portKeyTask_def sample_defs sample_strings ls TrimSpace_Nil)
  show ?thesis
    using v t e k
    by (simp add: IsRelayMode_def isRemote_def portOnlyTask_def sample_defs sample_strings
          TrimSpace_Nil)
qed

text \<open>
  Claim C1, as stated, fails: a relay task does not always lead to two runs of the sync
  tool. When the download fails, the upload is not attempted; when the task does not pass
  \<open>Validate\<close>, or the temporary directory cannot be created, the sync tool is not run.
\<close>

theorem Transfer_relay_counterexample:
  "IsRelayMode relayTask
   \<and> procs (snd (Transfer allFail relayTask []))
       = [[''rsync'', ''u1@h1:/src'', ''/tmp/transx-relay-1/'']]
   \<and> IsRelayMode (relayTask\<lparr>Source := (Source relayTask)\<lparr>SSHPort := 70000\<rparr>\<rparr>)
   \<and> Transfer allSucceed (relayTask\<lparr>Source := (Source relayTask)\<lparr>SSHPort := 70000\<rparr>\<rparr>) []
       = (Some (ValidationFailed (InvalidPort SourceSide 70000)), [])
   \<and> Transfer noTempDir relayTask []
       = (Some (TempDirFailed (OSError ''no space left on device'')), [])"
proof -
  have a: "procs (snd (Transfer allFail relayTask []))
       = [[''rsync'', ''u1@h1:/src'', ''/tmp/transx-relay-1/'']]"
    by (simp add: Transfer_def relayTransfer_def CombinedOutput_def Let_def relayTask_facts
          allFail_def)
  have b: "IsRelayMode (relayTask\<lparr>Source := (Source relayTask)\<lparr>SSHPort := 70000\<rparr>\<rparr>)"
    by (simp add: IsRelayMode_def isRemote_def relayTask_def sample_defs sample_strings)
  have c: "Validate (relayTask\<lparr>Source := (Source relayTask)\<lparr>SSHPort := 70000\<rparr>\<rparr>)
       = Some (InvalidPort SourceSide 70000)"
    by (simp add: Validate_eq isRemote_def relayTask_def sample_defs sample_strings)
  have d: "Transfer noTempDir relayTask []
       = (Some (TempDirFailed (OSError ''no space left on device'')), [])"
    by (simp add: Transfer_def relayTask_facts noTempDir_def)
  show ?thesis using a b c d relayTask_facts(1) by (simp add: Transfer_def)
qed

text \<open>
  Claim C1, amended. For every relay task: when the task does not pass \<open>Validate\<close>, or
  the staging directory cannot be created, \<open>Transfer\<close> returns the error and does
  nothing, so the sync tool is not run. When the task passes \<open>Validate\<close> and the staging
  directory \<open>d\<close> has been created, \<open>Transfer\<close> runs the sync tool with the resolved
  address of the source as origin and \<open>d/\<close> as destination; when that run succeeds it
  runs the sync tool a second time with \<open>d/\<close> as origin and the resolved address of the
  destination as target, and these two are the only processes it runs; when the first run
  fails it is the only one, and the error names the download. In every case after the
  creation of \<open>d\<close>, also when the second run fails, the last action of \<open>Transfer\<close> is
  the removal of \<open>d\<close>.
\<close>

theorem Transfer_relay:
  assumes "IsRelayMode task"
  shows
   "(Validate task = Some e
       \<longrightarrow> Transfer sys task tr = (Some (ValidationFailed e), tr))
    \<and> (Validate task = None \<and> mkdirTemp sys tr [] ''transx-relay-*'' = Inl msg
       \<longrightarrow> Transfer sys task tr = (Some (TempDirFailed (OSError msg)), tr))
    \<and> (Validate task = None \<and> mkdirTemp sys tr [] ''transx-relay-*'' = Inr d
       \<longrightarrow>
        (let src = getRsyncPath (Source task);
             dst = getRsyncPath (Destination task);
             dlArgs = rsyncArgs task @ [src, d @ ''/''];
             ulArgs = rsyncArgs task @ [d @ ''/'', dst];
             dl = rsyncCmdPath task # dlArgs;
             ul = rsyncCmdPath task # ulArgs;
             tr1 = tr @ [MkdirTemp d,
                         Print ''Relay transfer mode: Downloading from source to local temp dir...\<newline>''];
             tr2 = tr1 @ [Exec dl,
                          Print ''Relay transfer mode: Uploading from local temp dir to destination...\<newline>'']
         in
           (snd (combinedOutput sys tr1 dl) = None \<longrightarrow>
              procs (snd (Transfer sys task tr)) = procs tr @ [dl, ul]
              \<and> (snd (combinedOutput sys tr2 ul) = None \<longrightarrow>
                   Transfer sys task tr
                     = (None, tr2 @ [Exec ul,
                                     Print ''Relay transfer completed successfully!\<newline>'',
                                     RemoveAll d]))
              \<and> (snd (combinedOutput sys tr2 ul) = Some uerr \<longrightarrow>
                   Transfer sys task tr
                     = (Some (RelayUploadFailed dst (rsyncCmdPath task) ulArgs (OSError uerr)
                                (fst (combinedOutput sys tr2 ul))),
                        tr2 @ [Exec ul, RemoveAll d])))
           \<and> (snd (combinedOutput sys tr1 dl) = Some derr \<longrightarrow>
                Transfer sys task tr
                  = (Some (RelayDownloadFailed src (rsyncCmdPath task) dlArgs (OSError derr)
                             (fst (combinedOutput sys tr1 dl))),
                     tr1 @ [Exec dl, RemoveAll d])
                \<and> procs (snd (Transfer sys task tr)) = procs tr @ [dl])
           \<and> last (snd (Transfer sys task tr)) = RemoveAll d))"
  using assms
  by (auto simp: Transfer_def relayTransfer_def CombinedOutput_def Let_def procs_append
           split: option.split)

text \<open>
  The relay task of the specification in a system where the upload fails, in one where
  both runs succeed, in one where the download fails, and in one without a temporary
  directory; and the same task with port 70000 on the source.
\<close>

theorem Transfer_relay_witness:
  "procs (snd (Transfer secondFails relayTask []))
     = [[''rsync'', ''u1@h1:/src'', ''/tmp/transx-relay-1/''],
        [''rsync'', ''/tmp/transx-relay-1/'', ''u2@h2:/dst'']]
   \<and> fst (Transfer secondFails relayTask [])
     = Some (RelayUploadFailed ''u2@h2:/dst'' ''rsync'' [''/tmp/transx-relay-1/'', ''u2@h2:/dst'']
              (OSError ''exit status 255'') ''connection refused'')
   \<and> last (snd (Transfer secondFails relayTask [])) = RemoveAll ''/tmp/transx-relay-1''
   \<and> Transfer allSucceed relayTask []
     = (None,
        [MkdirTemp ''/tmp/transx-relay-1'',
         Print ''Relay transfer mode: Downloading from source to local temp dir...\<newline>'',
         Exec [''rsync'', ''u1@h1:/src'', ''/tmp/transx-relay-1/''],
         Print ''Relay transfer mode: Uploading from local temp dir to destination...\<newline>'',
         Exec [''rsync'', ''/tmp/transx-relay-1/'', ''u2@h2:/dst''],
         Print ''Relay transfer completed successfully!\<newline>'',
         RemoveAll ''/tmp/transx-relay-1''])
   \<and> Transfer allFail relayTask []
     = (Some (RelayDownloadFailed ''u1@h1:/src'' ''rsync'' [''u1@h1:/src'', ''/tmp/transx-relay-1/'']
               (OSError ''exit status 255'') ''connection refused''),
        [MkdirTemp ''/tmp/transx-relay-1'',
         Print ''Relay transfer mode: Downloading from source to local temp dir...\<newline>'',
         Exec [''rsync'', ''u1@h1:/src'', ''/tmp/transx-relay-1/''],
         RemoveAll ''/tmp/transx-relay-1''])
   \<and> Transfer noTempDir relayTask []
     = (Some (TempDirFailed (OSError ''no space left on device'')), [])
   \<and> Transfer allSucceed (relayTask\<lparr>Source := (Source relayTask)\<lparr>SSHPort := 70000\<rparr>\<rparr>) []
     = (Some (ValidationFailed (InvalidPort SourceSide 70000)), [])"
proof -
  let ?bad = "relayTask\<lparr>Source := (Source relayTask)\<lparr>SSHPort := 70000\<rparr>\<rparr>"
  have m1: "mkdirTemp secondFails [] [] ''transx-relay-*'' = Inr ''/tmp/transx-relay-1''"
    by (simp add: secondFails_def)
  have m2: "mkdirTemp allSucceed [] [] ''transx-relay-*'' = Inr ''/tmp/transx-relay-1''"
    by (simp add: allSucceed_def)
  have m3: "mkdirTemp allFail [] [] ''transx-relay-*'' = Inr ''/tmp/transx-relay-1''"
    by (simp add: allFail_def)
  have m4: "mkdirTemp noTempDir [] [] ''transx-relay-*'' = Inl ''no space left on device''"
    by (simp add: noTempDir_def)
  have rb: "IsRelayMode ?bad"
    by (simp add: IsRelayMode_def isRemote_def relayTask_def sample_defs sample_strings)
  have vb: "Validate ?bad = Some (InvalidPort SourceSide 70000)"
    by (simp add: Validate_eq isRemote_def relayTask_def sample_defs sample_strings)
  note r = relayTask_facts(1)
  show ?thesis
    using
      Transfer_relay [OF r, where sys = secondFails and tr = "[]" and d = "''/tmp/transx-relay-1''"
        and e = "MissingPath SourceSide" and msg = "[]" and derr = "[]" and uerr = "''exit status 255''"]
      Transfer_relay [OF r, where sys = allSucceed and tr = "[]" and d = "''/tmp/transx-relay-1''"
        and e = "MissingPath SourceSide" and msg = "[]" and derr = "[]" and uerr = "[]"]
      Transfer_relay [OF r, where sys = allFail and tr = "[]" and d = "''/tmp/transx-relay-1''"
        and e = "MissingPath SourceSide" and msg = "[]" and derr = "''exit status 255''" and uerr = "[]"]
      Transfer_relay [OF r, where sys = noTempDir and tr = "[]" and d = "[]"
        and e = "MissingPath SourceSide" and msg = "''no space left on device''"
        and derr = "[]" and uerr = "[]"]
      Transfer_relay [OF rb, where sys = allSucceed and tr = "[]" and d = "[]"
        and e = "InvalidPort SourceSide 70000" and msg = "[]" and derr = "[]" and uerr = "[]"]
      m1 m2 m3 m4 vb
    by (simp add: Let_def relayTask_facts secondFails_def allSucceed_def allFail_def)
qed

end
